theory Spec2Isabelle
  imports Main "HOL-Library.Word"
begin

section \<open>Bencode RPC codecs (package bencoderpc, client.go)\<close>

text \<open>
  The package plugs two codecs into Go's \<^verbatim>\<open>net/rpc\<close>: a client codec that remembers the
  method of every call it sent, and a server codec that replaces the arbitrary identifier of a
  request by a sequence number of its own. The bencode library and the connection are not part
  of the package: the decoder, the encoder and \<^verbatim>\<open>bencode.Unmarshal\<close> are parameters of the
  model (\<open>Decode\<close>, \<open>Encode\<close>, \<open>Unmarshal\<close>), each a function on a state the codec carries
  in its field \<open>dec\<close> or \<open>enc\<close>. Every method is modelled as one sequential step: the
  mutex of a codec is not part of the state.
\<close>

subsection \<open>Values\<close>

type_synonym uint64 = "64 word"

text \<open>\<^verbatim>\<open>bencode.RawMessage\<close> is a byte slice; a \<^verbatim>\<open>*bencode.RawMessage\<close> is an
  \<open>option\<close>, \<open>None\<close> the nil pointer.\<close>

type_synonym RawMessage = "char list"

text \<open>A Go \<^verbatim>\<open>error\<close>: made by \<^verbatim>\<open>errors.New\<close> in this package, or returned by the
  bencode library or the connection. A method that returns \<^verbatim>\<open>error\<close> returns
  \<open>error option\<close>, \<open>None\<close> for nil.\<close>

datatype error = ErrorsNew string | LibError string

datatype panic = NilDereference

text \<open>\<^verbatim>\<open>rpc.Request\<close> and \<^verbatim>\<open>rpc.Response\<close>, the headers of package \<^verbatim>\<open>net/rpc\<close>.\<close>

record Request =
  req_ServiceMethod :: string
  req_Seq :: uint64

record Response =
  resp_ServiceMethod :: string
  resp_Seq :: uint64
  resp_Error :: string

subsection \<open>What a decoder delivers\<close>

text \<open>
  \<^verbatim>\<open>Decode(&c.req)\<close> reads one dictionary and stores, into the struct it is given, the
  fields whose keys the dictionary has; the others keep the value they had. The dictionary of
  a request has the keys \<^verbatim>\<open>i\<close>, \<^verbatim>\<open>m\<close>, \<^verbatim>\<open>p\<close>, that of a response \<^verbatim>\<open>e\<close>, \<^verbatim>\<open>i\<close>, \<^verbatim>\<open>r\<close>.
  A call of the decoder returns the error (if any) and the fields it stored before returning.
\<close>

record wireRequest =
  wreq_i :: "RawMessage option"
  wreq_m :: "string option"
  wreq_p :: "RawMessage option"

record wireResponse =
  wresp_e :: "string option"
  wresp_i :: "uint64 option"
  wresp_r :: "RawMessage option"

subsection \<open>The client codec\<close>

record 'p clientRequest =
  creq_Id :: uint64
  creq_Method :: string
  creq_Params :: 'p

record clientResponse =
  cresp_Error :: string
  cresp_Id :: uint64
  cresp_Result :: "RawMessage option"

record ('d, 'e, 'p) clientCodec =
  cc_dec :: 'd
  cc_enc :: 'e
  cc_req :: "'p clientRequest"
  cc_resp :: clientResponse
  cc_pending :: "uint64 \<rightharpoonup> string"

definition NewClientCodec :: "'d \<Rightarrow> 'e \<Rightarrow> 'p \<Rightarrow> ('d, 'e, 'p) clientCodec" where
  "NewClientCodec d e nil =
     \<lparr>cc_dec = d, cc_enc = e,
      cc_req = \<lparr>creq_Id = 0, creq_Method = [], creq_Params = nil\<rparr>,
      cc_resp = \<lparr>cresp_Error = [], cresp_Id = 0, cresp_Result = None\<rparr>,
      cc_pending = Map.empty\<rparr>"

definition WriteRequest ::
  "('e \<Rightarrow> 'p clientRequest \<Rightarrow> error option \<times> 'e) \<Rightarrow> Request \<Rightarrow> 'p \<Rightarrow>
   ('d, 'e, 'p) clientCodec \<Rightarrow> error option \<times> ('d, 'e, 'p) clientCodec" where
  "WriteRequest Encode r params c =
     (let c1 = c\<lparr>cc_pending := (cc_pending c)(req_Seq r \<mapsto> req_ServiceMethod r)\<rparr>;
          c2 = c1\<lparr>cc_req := \<lparr>creq_Id = req_Seq r, creq_Method = req_ServiceMethod r,
                              creq_Params = params\<rparr>\<rparr>;
          (err, e') = Encode (cc_enc c2) (cc_req c2)
      in (err, c2\<lparr>cc_enc := e'\<rparr>))"

definition clientResponse_reset :: "clientResponse \<Rightarrow> clientResponse" where
  "clientResponse_reset r = r\<lparr>cresp_Error := [], cresp_Id := 0, cresp_Result := None\<rparr>"

definition store_clientResponse :: "wireResponse \<Rightarrow> clientResponse \<Rightarrow> clientResponse" where
  "store_clientResponse w r =
     \<lparr>cresp_Error = (case wresp_e w of None \<Rightarrow> cresp_Error r | Some s \<Rightarrow> s),
      cresp_Id = (case wresp_i w of None \<Rightarrow> cresp_Id r | Some n \<Rightarrow> n),
      cresp_Result = (case wresp_r w of None \<Rightarrow> cresp_Result r | Some b \<Rightarrow> Some b)\<rparr>"

text \<open>The identifier a response carries once it is decoded into the reset work space: 0
  when the dictionary has no \<^verbatim>\<open>i\<close>.\<close>

definition wire_id :: "wireResponse \<Rightarrow> uint64" where
  "wire_id w = (case wresp_i w of None \<Rightarrow> 0 | Some n \<Rightarrow> n)"

text \<open>Reading a missing key of a Go map gives the zero value, here the empty string; deleting
  a missing key does nothing.\<close>

definition ReadResponseHeader ::
  "('d \<Rightarrow> (error option \<times> wireResponse) \<times> 'd) \<Rightarrow> Response \<Rightarrow>
   ('d, 'e, 'p) clientCodec \<Rightarrow> error option \<times> Response \<times> ('d, 'e, 'p) clientCodec" where
  "ReadResponseHeader Decode r c =
     (let c0 = c\<lparr>cc_resp := clientResponse_reset (cc_resp c)\<rparr>;
          ((err, w), d') = Decode (cc_dec c0);
          c1 = c0\<lparr>cc_dec := d', cc_resp := store_clientResponse w (cc_resp c0)\<rparr>
      in case err of
           Some e \<Rightarrow> (Some e, r, c1)
         | None \<Rightarrow>
             (let r1 = r\<lparr>resp_ServiceMethod :=
                         (case cc_pending c1 (cresp_Id (cc_resp c1)) of
                            None \<Rightarrow> [] | Some m \<Rightarrow> m)\<rparr>;
                  c2 = c1\<lparr>cc_pending := (cc_pending c1)(cresp_Id (cc_resp c1) := None)\<rparr>;
                  r2 = r1\<lparr>resp_Seq := cresp_Id (cc_resp c2)\<rparr>;
                  r3 = (if cresp_Error (cc_resp c2) \<noteq> []
                        then r2\<lparr>resp_Error := cresp_Error (cc_resp c2)\<rparr> else r2)
              in (None, r3, c2)))"

text \<open>The target \<open>x\<close> is \<open>None\<close> for a nil interface, and \<open>Some t\<close> for a pointer to a
  value \<open>t\<close> that \<open>Unmarshal\<close> overwrites. The argument \<^verbatim>\<open>*c.resp.Result\<close> is evaluated
  before \<^verbatim>\<open>bencode.Unmarshal\<close> is called: a nil \<open>Result\<close> panics.\<close>

definition ReadResponseBody ::
  "(RawMessage \<Rightarrow> 't \<Rightarrow> error option \<times> 't) \<Rightarrow> 't option \<Rightarrow>
   ('d, 'e, 'p) clientCodec \<Rightarrow> panic + (error option \<times> 't option)" where
  "ReadResponseBody Unmarshal x c =
     (case x of
        None \<Rightarrow> Inr (None, None)
      | Some t \<Rightarrow>
          (case cresp_Result (cc_resp c) of
             None \<Rightarrow> Inl NilDereference
           | Some b \<Rightarrow> (let (err, t') = Unmarshal b t in Inr (err, Some t'))))"

subsection \<open>The server codec\<close>

definition errMissingParams :: error where
  "errMissingParams = ErrorsNew ''bencoderpc: request body missing params''"

record serverRequest =
  sreq_Id :: "RawMessage option"
  sreq_Method :: string
  sreq_Params :: "RawMessage option"

record 'x serverResponse =
  sresp_Error :: string
  sresp_Id :: "RawMessage option"
  sresp_Result :: 'x

text \<open>The values of \<open>pending\<close> are pointers, so an entry can hold the nil pointer:
  \<open>sc_pending c k = Some None\<close>, which is not the missing entry \<open>sc_pending c k = None\<close>.\<close>

record ('d, 'e) serverCodec =
  sc_dec :: 'd
  sc_enc :: 'e
  sc_req :: serverRequest
  sc_seq :: uint64
  sc_pending :: "uint64 \<rightharpoonup> RawMessage option"

definition NewServerCodec :: "'d \<Rightarrow> 'e \<Rightarrow> ('d, 'e) serverCodec" where
  "NewServerCodec d e =
     \<lparr>sc_dec = d, sc_enc = e,
      sc_req = \<lparr>sreq_Id = None, sreq_Method = [], sreq_Params = None\<rparr>,
      sc_seq = 0,
      sc_pending = Map.empty\<rparr>"

definition serverRequest_reset :: "serverRequest \<Rightarrow> serverRequest" where
  "serverRequest_reset r = r\<lparr>sreq_Id := None, sreq_Method := [], sreq_Params := None\<rparr>"

definition store_serverRequest :: "wireRequest \<Rightarrow> serverRequest \<Rightarrow> serverRequest" where
  "store_serverRequest w r =
     \<lparr>sreq_Id = (case wreq_i w of None \<Rightarrow> sreq_Id r | Some b \<Rightarrow> Some b),
      sreq_Method = (case wreq_m w of None \<Rightarrow> sreq_Method r | Some s \<Rightarrow> s),
      sreq_Params = (case wreq_p w of None \<Rightarrow> sreq_Params r | Some b \<Rightarrow> Some b)\<rparr>"

definition ReadRequestHeader ::
  "('d \<Rightarrow> (error option \<times> wireRequest) \<times> 'd) \<Rightarrow> Request \<Rightarrow>
   ('d, 'e) serverCodec \<Rightarrow> error option \<times> Request \<times> ('d, 'e) serverCodec" where
  "ReadRequestHeader Decode r c =
     (let c0 = c\<lparr>sc_req := serverRequest_reset (sc_req c)\<rparr>;
          ((err, w), d') = Decode (sc_dec c0);
          c1 = c0\<lparr>sc_dec := d', sc_req := store_serverRequest w (sc_req c0)\<rparr>
      in case err of
           Some e \<Rightarrow> (Some e, r, c1)
         | None \<Rightarrow>
             (let r1 = r\<lparr>req_ServiceMethod := sreq_Method (sc_req c1)\<rparr>;
                  c2 = c1\<lparr>sc_seq := sc_seq c1 + 1\<rparr>;
                  c3 = (if sreq_Id (sc_req c2) \<noteq> None
                        then c2\<lparr>sc_pending := (sc_pending c2)(sc_seq c2 \<mapsto> sreq_Id (sc_req c2))\<rparr>
                        else c2);
                  c4 = c3\<lparr>sc_req := (sc_req c3)\<lparr>sreq_Id := None\<rparr>\<rparr>;
                  r2 = r1\<lparr>req_Seq := sc_seq c4\<rparr>
              in (None, r2, c4)))"

text \<open>\<^verbatim>\<open>ReadRequestBody\<close> reads the work space only: the codec is left as it is.\<close>

definition ReadRequestBody ::
  "(RawMessage \<Rightarrow> 't \<Rightarrow> error option \<times> 't) \<Rightarrow> 't option \<Rightarrow>
   ('d, 'e) serverCodec \<Rightarrow> error option \<times> 't option" where
  "ReadRequestBody Unmarshal x c =
     (case x of
        None \<Rightarrow> (None, None)
      | Some t \<Rightarrow>
          (case sreq_Params (sc_req c) of
             None \<Rightarrow> (Some errMissingParams, Some t)
           | Some b \<Rightarrow> (let (err, t') = Unmarshal b t in (err, Some t'))))"

definition zero :: RawMessage where
  "zero = ''i0e''"

definition WriteResponse ::
  "('e \<Rightarrow> 'x serverResponse \<Rightarrow> error option \<times> 'e) \<Rightarrow> Response \<Rightarrow> 'x \<Rightarrow>
   ('d, 'e) serverCodec \<Rightarrow> error option \<times> ('d, 'e) serverCodec" where
  "WriteResponse Encode r x c =
     (case sc_pending c (resp_Seq r) of
        None \<Rightarrow> (Some (ErrorsNew ''invalid sequence number in response''), c)
      | Some b \<Rightarrow>
          (let c1 = c\<lparr>sc_pending := (sc_pending c)(resp_Seq r := None)\<rparr>;
               b' = (if b = None then Some zero else b);
               resp = \<lparr>sresp_Error = (if resp_Error r \<noteq> [] then resp_Error r else []),
                       sresp_Id = b', sresp_Result = x\<rparr>;
               (err, e') = Encode (sc_enc c1) resp
           in (err, c1\<lparr>sc_enc := e'\<rparr>)))"

subsection \<open>Callers of the server codec\<close>

text \<open>
  Package \<^verbatim>\<open>net/rpc\<close> calls the methods of a server codec in an order of its own. A list of
  calls stands for any such caller; running it collects, in order, the sequence numbers that
  the successful calls of \<open>ReadRequestHeader\<close> handed out. \<open>ReadRequestBody\<close> does not
  change the codec and is left out.
\<close>

datatype 'x call = CallReadRequestHeader | CallWriteResponse Response 'x

fun codec_call ::
  "('d \<Rightarrow> (error option \<times> wireRequest) \<times> 'd) \<Rightarrow>
   ('e \<Rightarrow> 'x serverResponse \<Rightarrow> error option \<times> 'e) \<Rightarrow> 'x call \<Rightarrow>
   uint64 list \<times> ('d, 'e) serverCodec \<Rightarrow> uint64 list \<times> ('d, 'e) serverCodec" where
  "codec_call Decode Encode CallReadRequestHeader (ss, c) =
     (case ReadRequestHeader Decode \<lparr>req_ServiceMethod = [], req_Seq = 0\<rparr> c of
        (None, r, c') \<Rightarrow> (ss @ [req_Seq r], c')
      | (Some e, r, c') \<Rightarrow> (ss, c'))"
| "codec_call Decode Encode (CallWriteResponse r x) (ss, c) =
     (ss, snd (WriteResponse Encode r x c))"

fun codec_calls ::
  "('d \<Rightarrow> (error option \<times> wireRequest) \<times> 'd) \<Rightarrow>
   ('e \<Rightarrow> 'x serverResponse \<Rightarrow> error option \<times> 'e) \<Rightarrow> 'x call list \<Rightarrow>
   uint64 list \<times> ('d, 'e) serverCodec \<Rightarrow> uint64 list \<times> ('d, 'e) serverCodec" where
  "codec_calls Decode Encode [] sc = sc"
| "codec_calls Decode Encode (a # as) sc =
     codec_calls Decode Encode as (codec_call Decode Encode a sc)"

subsection \<open>The serving loop\<close>

text \<open>
  Modelled from the spec: the serving loop \<^verbatim>\<open>rpc.ServeCodec\<close> that \<^verbatim>\<open>ServeConn\<close> hands the
  new codec to belongs to package \<^verbatim>\<open>net/rpc\<close> and is not among the sources. The spec gives
  it two states, \<open>Reading\<close> and \<open>Closed\<close>: in \<open>Reading\<close> it reads a request; a failure
  of the read closes the loop, which returns; a request that was read is dispatched and the
  loop reads on. What the substrate does with the codec when it dispatches a request is the
  parameter \<open>dispatch\<close>. The loop is a partial function: \<open>None\<close> is a loop that never
  returns.
\<close>

datatype serving = Reading | Closed

definition serve_step ::
  "('d \<Rightarrow> (error option \<times> wireRequest) \<times> 'd) \<Rightarrow>
   (Request \<Rightarrow> ('d, 'e) serverCodec \<Rightarrow> ('d, 'e) serverCodec) \<Rightarrow>
   serving \<times> ('d, 'e) serverCodec \<Rightarrow> serving \<times> ('d, 'e) serverCodec" where
  "serve_step Decode dispatch sc =
     (case sc of
        (Closed, c) \<Rightarrow> (Closed, c)
      | (Reading, c) \<Rightarrow>
          (case ReadRequestHeader Decode \<lparr>req_ServiceMethod = [], req_Seq = 0\<rparr> c of
             (Some e, r, c') \<Rightarrow> (Closed, c')
           | (None, r, c') \<Rightarrow> (Reading, dispatch r c')))"

partial_function (option) ServeCodec ::
  "('d \<Rightarrow> (error option \<times> wireRequest) \<times> 'd) \<Rightarrow>
   (Request \<Rightarrow> ('d, 'e) serverCodec \<Rightarrow> ('d, 'e) serverCodec) \<Rightarrow>
   serving \<times> ('d, 'e) serverCodec \<Rightarrow> ('d, 'e) serverCodec option" where
  "ServeCodec Decode dispatch sc =
     (if fst sc = Closed then Some (snd sc)
      else ServeCodec Decode dispatch (serve_step Decode dispatch sc))"

definition ServeConn ::
  "('d \<Rightarrow> (error option \<times> wireRequest) \<times> 'd) \<Rightarrow>
   (Request \<Rightarrow> ('d, 'e) serverCodec \<Rightarrow> ('d, 'e) serverCodec) \<Rightarrow>
   'd \<Rightarrow> 'e \<Rightarrow> ('d, 'e) serverCodec option" where
  "ServeConn Decode dispatch d e = ServeCodec Decode dispatch (Reading, NewServerCodec d e)"

subsection \<open>A connection for the examples\<close>

text \<open>
  The examples run the codecs on a scripted connection, as the tests of the package run them
  on a pipe: the decoder's state is the list of the dictionaries still to come (the end of
  the list is the end of the stream), the encoder's state the list of the values written.
\<close>

definition scriptedDecode ::
  "'w \<Rightarrow> (error option \<times> 'w) list \<Rightarrow> (error option \<times> 'w) \<times> (error option \<times> 'w) list" where
  "scriptedDecode nothing ds =
     (case ds of [] \<Rightarrow> ((Some (LibError ''EOF''), nothing), []) | a # as \<Rightarrow> (a, as))"

definition recordingEncode :: "'v list \<Rightarrow> 'v \<Rightarrow> error option \<times> 'v list" where
  "recordingEncode out v = (None, out @ [v])"

definition noRequest :: wireRequest where
  "noRequest = \<lparr>wreq_i = None, wreq_m = None, wreq_p = None\<rparr>"

definition noResponse :: wireResponse where
  "noResponse = \<lparr>wresp_e = None, wresp_i = None, wresp_r = None\<rparr>"

definition addRequest :: "RawMessage option \<Rightarrow> RawMessage option \<Rightarrow> error option \<times> wireRequest" where
  "addRequest i p = (None, \<lparr>wreq_i = i, wreq_m = Some ''Arith.Add'', wreq_p = p\<rparr>)"

definition newRequest :: Request where
  "newRequest = \<lparr>req_ServiceMethod = [], req_Seq = 0\<rparr>"

definition newResponse :: Response where
  "newResponse = \<lparr>resp_ServiceMethod = [], resp_Seq = 0, resp_Error = []\<rparr>"

text \<open>A client codec with two calls in flight, \<^verbatim>\<open>Arith.Add\<close> under 0 and \<^verbatim>\<open>Arith.Mul\<close>
  under 1 (package \<^verbatim>\<open>net/rpc\<close> numbers the calls of a client from 0), and a substrate that
  answers every request at once.\<close>

definition pendingCalls :: "(error option \<times> wireResponse) list \<Rightarrow>
    ((error option \<times> wireResponse) list, nat clientRequest list, nat) clientCodec" where
  "pendingCalls ds =
     snd (WriteRequest recordingEncode \<lparr>req_ServiceMethod = ''Arith.Mul'', req_Seq = 1\<rparr> 0
       (snd (WriteRequest recordingEncode \<lparr>req_ServiceMethod = ''Arith.Add'', req_Seq = 0\<rparr> 0
         (NewClientCodec ds [] 0))))"

definition answerAll :: "Request \<Rightarrow> ('d, nat serverResponse list) serverCodec \<Rightarrow>
    ('d, nat serverResponse list) serverCodec" where
  "answerAll q c =
     snd (WriteResponse recordingEncode
            \<lparr>resp_ServiceMethod = req_ServiceMethod q, resp_Seq = req_Seq q, resp_Error = []\<rparr> 0 c)"

lemmas harness_defs = scriptedDecode_def recordingEncode_def noRequest_def noResponse_def
  addRequest_def newRequest_def newResponse_def

section \<open>Single calls of the server codec\<close>

lemma WriteResponse_miss:
  "sc_pending c (resp_Seq r) = None \<Longrightarrow>
   WriteResponse Encode r x c = (Some (ErrorsNew ''invalid sequence number in response''), c)"
  by (simp add: WriteResponse_def)

lemma WriteResponse_hit:
  "sc_pending c (resp_Seq r) = Some b \<Longrightarrow>
   WriteResponse Encode r x c =
     (let c1 = c\<lparr>sc_pending := (sc_pending c)(resp_Seq r := None)\<rparr>;
          (err, e') = Encode (sc_enc c)
             \<lparr>sresp_Error = resp_Error r,
              sresp_Id = (case b of None \<Rightarrow> Some zero | Some i \<Rightarrow> Some i),
              sresp_Result = x\<rparr>
      in (err, c1\<lparr>sc_enc := e'\<rparr>))"
  by (cases b) (simp_all add: WriteResponse_def Let_def)

lemma WriteResponse_pending:
  "sc_pending (snd (WriteResponse Encode r x c)) = (sc_pending c)(resp_Seq r := None)"
  by (cases "sc_pending c (resp_Seq r)")
     (auto simp: WriteResponse_def Let_def split: prod.splits)

lemma WriteResponse_seq:
  "sc_seq (snd (WriteResponse Encode r x c)) = sc_seq c"
  by (cases "sc_pending c (resp_Seq r)")
     (auto simp: WriteResponse_def Let_def split: prod.splits)

lemma ReadRequestHeader_fail:
  "Decode (sc_dec c) = ((Some e, w), d') \<Longrightarrow>
   ReadRequestHeader Decode r c =
     (Some e, r, c\<lparr>sc_dec := d',
                   sc_req := store_serverRequest w (serverRequest_reset (sc_req c))\<rparr>)"
  by (simp add: ReadRequestHeader_def Let_def)

lemma ReadRequestHeader_ok:
  "Decode (sc_dec c) = ((None, w), d') \<Longrightarrow>
   ReadRequestHeader Decode r c =
     (None,
      \<lparr>req_ServiceMethod = (case wreq_m w of None \<Rightarrow> [] | Some s \<Rightarrow> s), req_Seq = sc_seq c + 1\<rparr>,
      c\<lparr>sc_dec := d',
        sc_req := \<lparr>sreq_Id = None,
                   sreq_Method = (case wreq_m w of None \<Rightarrow> [] | Some s \<Rightarrow> s),
                   sreq_Params = wreq_p w\<rparr>,
        sc_seq := sc_seq c + 1,
        sc_pending := (case wreq_i w of None \<Rightarrow> sc_pending c
                       | Some b \<Rightarrow> (sc_pending c)(sc_seq c + 1 \<mapsto> Some b))\<rparr>)"
  by (cases r; cases "wreq_i w"; cases "wreq_p w"; cases "wreq_m w")
     (simp_all add: ReadRequestHeader_def Let_def store_serverRequest_def serverRequest_reset_def)

lemma ReadRequestHeader_dom:
  "dom (sc_pending c) \<subseteq> dom (sc_pending (snd (snd (ReadRequestHeader Decode r c))))"
proof (cases "Decode (sc_dec c)")
  case (Pair ew d')
  obtain err w where ew: "ew = (err, w)" by (cases ew)
  show ?thesis
  proof (cases err)
    case None
    with Pair ew show ?thesis
      by (auto simp: ReadRequestHeader_ok split: option.splits)
  next
    case (Some e)
    with Pair ew show ?thesis
      by (simp add: ReadRequestHeader_fail)
  qed
qed

text \<open>
  C4. \<open>WriteResponse\<close> for a sequence number that has no pending entry returns the error
  "invalid sequence number in response" and leaves the codec as it was, the encoder included:
  nothing is written. For a sequence number that has an entry it removes that entry and no
  other (whatever the encoder returns) and leaves the counter alone, so that a second
  response for the same sequence number is refused. \<open>ReadRequestHeader\<close> removes no entry.
\<close>

theorem WriteResponse_unknown_or_once:
  "(sc_pending c (resp_Seq r) = None \<longrightarrow>
      WriteResponse Encode r x c =
        (Some (ErrorsNew ''invalid sequence number in response''), c)) \<and>
   (sc_pending c (resp_Seq r) \<noteq> None \<longrightarrow>
      sc_pending (snd (WriteResponse Encode r x c)) = (sc_pending c)(resp_Seq r := None) \<and>
      sc_seq (snd (WriteResponse Encode r x c)) = sc_seq c \<and>
      (\<forall>r' x'. resp_Seq r' = resp_Seq r \<longrightarrow>
         WriteResponse Encode r' x' (snd (WriteResponse Encode r x c)) =
           (Some (ErrorsNew ''invalid sequence number in response''),
            snd (WriteResponse Encode r x c)))) \<and>
   dom (sc_pending c) \<subseteq> dom (sc_pending (snd (snd (ReadRequestHeader Decode q c))))"
proof (intro conjI impI allI)
  show "WriteResponse Encode r x c =
        (Some (ErrorsNew ''invalid sequence number in response''), c)"
    if "sc_pending c (resp_Seq r) = None"
    using that by (rule WriteResponse_miss)
  show "sc_pending (snd (WriteResponse Encode r x c)) = (sc_pending c)(resp_Seq r := None)"
    by (rule WriteResponse_pending)
  show "sc_seq (snd (WriteResponse Encode r x c)) = sc_seq c"
    by (rule WriteResponse_seq)
  show "WriteResponse Encode r' x' (snd (WriteResponse Encode r x c)) =
           (Some (ErrorsNew ''invalid sequence number in response''),
            snd (WriteResponse Encode r x c))"
    if "resp_Seq r' = resp_Seq r" for r' x'
    by (rule WriteResponse_miss) (simp add: WriteResponse_pending that)
  show "dom (sc_pending c) \<subseteq> dom (sc_pending (snd (snd (ReadRequestHeader Decode q c))))"
    by (rule ReadRequestHeader_dom)
qed

theorem WriteResponse_unknown_or_once_witness:
  "WriteResponse recordingEncode (newResponse\<lparr>resp_Seq := 1\<rparr>) (5::nat)
     (NewServerCodec [addRequest (Some ''i7e'') (Some ''de'')] []) =
     (Some (ErrorsNew ''invalid sequence number in response''),
      NewServerCodec [addRequest (Some ''i7e'') (Some ''de'')] []) \<and>
   sc_pending (snd (WriteResponse recordingEncode (newResponse\<lparr>resp_Seq := 1\<rparr>) (5::nat)
     (snd (snd (ReadRequestHeader (scriptedDecode noRequest) newRequest
       (NewServerCodec [addRequest (Some ''i7e'') (Some ''de'')] [])))))) = Map.empty"
proof -
  let ?c0 = "NewServerCodec [addRequest (Some ''i7e'') (Some ''de'')] ([] :: nat serverResponse list)"
  let ?c1 = "snd (snd (ReadRequestHeader (scriptedDecode noRequest) newRequest ?c0))"
  let ?r = "newResponse\<lparr>resp_Seq := 1\<rparr>"
  have miss: "sc_pending ?c0 (resp_Seq ?r) = None"
    by (simp add: NewServerCodec_def)
  have c1: "sc_pending ?c1 = [1 \<mapsto> Some ''i7e'']"
    by (simp add: ReadRequestHeader_ok [where d' = "[]" and w = "snd (addRequest (Some ''i7e'') (Some ''de''))"]
        harness_defs NewServerCodec_def)
  have hit: "sc_pending ?c1 (resp_Seq ?r) \<noteq> None"
    by (simp add: c1 newResponse_def)
  from WriteResponse_unknown_or_once [of ?c0 ?r recordingEncode 5 "scriptedDecode noRequest" newRequest] miss
  have a: "WriteResponse recordingEncode ?r 5 ?c0 =
     (Some (ErrorsNew ''invalid sequence number in response''), ?c0)"
    by blast
  from WriteResponse_unknown_or_once [of ?c1 ?r recordingEncode 5 "scriptedDecode noRequest" newRequest] hit
  have "sc_pending (snd (WriteResponse recordingEncode ?r 5 ?c1)) = (sc_pending ?c1)(resp_Seq ?r := None)"
    by blast
  then have b: "sc_pending (snd (WriteResponse recordingEncode ?r 5 ?c1)) = Map.empty"
    by (simp add: c1 newResponse_def)
  from a b show ?thesis by simp
qed


section \<open>Sequence numbers of the server codec\<close>

lemma codec_call_read:
  assumes "codec_call D E CallReadRequestHeader (ss, c) = (ss', c')"
  shows "(ss' = ss \<and> sc_seq c' = sc_seq c \<and> sc_pending c' = sc_pending c) \<or>
         (\<exists>i. ss' = ss @ [sc_seq c + 1] \<and> sc_seq c' = sc_seq c + 1 \<and>
              sc_pending c' = (case i of None \<Rightarrow> sc_pending c
                               | Some b \<Rightarrow> (sc_pending c)(sc_seq c + 1 \<mapsto> Some b)))"
proof (cases "D (sc_dec c)")
  case (Pair ew d')
  obtain err w where ew: "ew = (err, w)" by (cases ew)
  show ?thesis
  proof (cases err)
    case None
    with Pair ew have "D (sc_dec c) = ((None, w), d')" by simp
    from ReadRequestHeader_ok [where Decode = D and c = c, OF this] assms
    show ?thesis by auto
  next
    case (Some e)
    with Pair ew have "D (sc_dec c) = ((Some e, w), d')" by simp
    from ReadRequestHeader_fail [where Decode = D and c = c, OF this] assms
    show ?thesis by auto
  qed
qed

lemma codec_call_write:
  assumes "codec_call D E (CallWriteResponse r x) (ss, c) = (ss', c')"
  shows "ss' = ss \<and> sc_seq c' = sc_seq c \<and> sc_pending c' = (sc_pending c)(resp_Seq r := None)"
  using assms by (auto simp: WriteResponse_seq WriteResponse_pending)

lemma map_upt_shift:
  "map f [Suc 0..<Suc (Suc n)] = f (Suc 0) # map (\<lambda>k. f (Suc k)) [Suc 0..<Suc n]"
proof -
  have "[Suc 0..<Suc (Suc n)] = Suc 0 # map Suc [Suc 0..<Suc n]"
    by (simp only: map_Suc_upt) (simp add: upt_conv_Cons del: upt_Suc)
  then show ?thesis by (simp add: comp_def del: upt_Suc)
qed

lemma codec_calls_seqs:
  "codec_calls D E calls (ss, c) = (ss', c') \<Longrightarrow>
   \<exists>n. ss' = ss @ map (\<lambda>k. sc_seq c + of_nat k) [1..<Suc n] \<and> sc_seq c' = sc_seq c + of_nat n"
proof (induction calls arbitrary: ss c)
  case Nil
  then have "ss' = ss @ map (\<lambda>k. sc_seq c + of_nat k) [1..<Suc 0] \<and> sc_seq c' = sc_seq c + of_nat 0"
    by simp
  then show ?case by blast
next
  case (Cons a calls)
  obtain ss1 c1 where step: "codec_call D E a (ss, c) = (ss1, c1)"
    by (cases "codec_call D E a (ss, c)")
  with Cons.prems have rest: "codec_calls D E calls (ss1, c1) = (ss', c')" by simp
  from Cons.IH [OF rest] obtain n where
    n: "ss' = ss1 @ map (\<lambda>k. sc_seq c1 + of_nat k) [1..<Suc n]" "sc_seq c' = sc_seq c1 + of_nat n"
    by blast
  have "(ss1 = ss \<and> sc_seq c1 = sc_seq c) \<or> (ss1 = ss @ [sc_seq c + 1] \<and> sc_seq c1 = sc_seq c + 1)"
  proof (cases a)
    case CallReadRequestHeader
    with step codec_call_read [of D E ss c ss1 c1] show ?thesis by auto
  next
    case (CallWriteResponse r x)
    with step codec_call_write [of D E r x ss c ss1 c1] show ?thesis by auto
  qed
  then show ?case
  proof
    assume "ss1 = ss \<and> sc_seq c1 = sc_seq c"
    with n show ?thesis by auto
  next
    assume a: "ss1 = ss @ [sc_seq c + 1] \<and> sc_seq c1 = sc_seq c + 1"
    have "ss' = ss @ map (\<lambda>k. sc_seq c + of_nat k) [1..<Suc (Suc n)] \<and>
          sc_seq c' = sc_seq c + of_nat (Suc n)"
      using n a by (simp add: map_upt_shift add.assoc add.commute add.left_commute del: upt_Suc)
    then show ?thesis by blast
  qed
qed

lemma codec_calls_dom:
  "codec_calls D E calls (ss, c) = (ss', c') \<Longrightarrow>
   dom (sc_pending c') \<subseteq> dom (sc_pending c) \<union> set ss'"
proof (induction calls arbitrary: ss c)
  case Nil
  then show ?case by auto
next
  case (Cons a calls)
  obtain ss1 c1 where step: "codec_call D E a (ss, c) = (ss1, c1)"
    by (cases "codec_call D E a (ss, c)")
  with Cons.prems have rest: "codec_calls D E calls (ss1, c1) = (ss', c')" by simp
  from codec_calls_seqs [OF rest] have sub: "set ss1 \<subseteq> set ss'" by auto
  have "dom (sc_pending c1) \<subseteq> dom (sc_pending c) \<union> set ss1"
  proof (cases a)
    case CallReadRequestHeader
    with step codec_call_read [of D E ss c ss1 c1] show ?thesis
      by (auto split: option.splits)
  next
    case (CallWriteResponse r x)
    with step codec_call_write [of D E r x ss c ss1 c1] show ?thesis
      by (auto split: if_splits)
  qed
  with Cons.IH [OF rest] sub show ?case by blast
qed

lemma unat_of_nat_upt:
  assumes "n < 2 ^ 64"
  shows "map unat (map of_nat [1..<Suc n] :: uint64 list) = [1..<Suc n]"
proof -
  have "unat (of_nat k :: uint64) = k" if "k \<in> set [1..<Suc n]" for k
  proof -
    from that assms have "k < 2 ^ 64" by (auto simp del: upt_Suc)
    then show ?thesis by (simp add: unat_of_nat)
  qed
  then have "map (\<lambda>k. unat (of_nat k :: uint64)) [1..<Suc n] = map (\<lambda>k. k) [1..<Suc n]"
    by (intro map_cong refl)
  then show ?thesis by (simp add: comp_def)
qed

text \<open>
  C8. Run any caller on a new server codec, and let \<open>ss\<close> be the sequence numbers that
  its successful calls of \<open>ReadRequestHeader\<close> handed out, in order (a request without
  identifier counts like any other; a failed read hands out nothing). As long as fewer than
  \<open>2 ^ 64\<close> requests were read (the counter is a 64-bit word and wraps after that), the
  numbers are 1, 2, 3, ...: the first is 1, they increase strictly, none occurs twice, the
  counter holds the number of requests read, and every pending entry is filed under one of
  them.
\<close>

theorem seq_counts_requests:
  assumes run: "codec_calls Decode Encode calls ([], NewServerCodec d e) = (ss, c)"
    and bound: "length ss < 2 ^ 64"
  shows "map unat ss = [1..<Suc (length ss)] \<and>
         sorted_wrt (<) ss \<and> distinct ss \<and>
         unat (sc_seq c) = length ss \<and>
         dom (sc_pending c) \<subseteq> set ss"
proof -
  from codec_calls_seqs [OF run] obtain n where
    n: "ss = map of_nat [1..<Suc n]" "sc_seq c = of_nat n"
    by (auto simp: NewServerCodec_def)
  then have len: "length ss = n" by simp
  with bound have n64: "n < 2 ^ 64" by simp
  have m: "map unat ss = [1..<Suc (length ss)]"
    using unat_of_nat_upt [OF n64] n(1) len by simp
  have less: "(<) = (\<lambda>x y :: uint64. unat x < unat y)"
    by (intro ext) (simp add: word_less_nat_alt)
  have "sorted_wrt (<) (map unat ss)"
    unfolding m by (simp del: upt_Suc)
  then have s: "sorted_wrt (<) ss"
    by (simp add: sorted_wrt_map less)
  have "distinct (map unat ss)"
    unfolding m by (simp del: upt_Suc)
  then have d: "distinct ss"
    by (simp add: distinct_map)
  have q: "unat (sc_seq c) = length ss"
    using n(2) n64 len by (simp add: unat_of_nat)
  have p: "dom (sc_pending c) \<subseteq> set ss"
    using codec_calls_dom [OF run] by (simp add: NewServerCodec_def)
  from m s d q p show ?thesis by blast
qed

lemma seq_witness_run:
  "fst (codec_calls (scriptedDecode noRequest) recordingEncode
     [CallReadRequestHeader, CallReadRequestHeader,
      CallWriteResponse (newResponse\<lparr>resp_Seq := 1\<rparr>) (0::nat), CallReadRequestHeader]
     ([], NewServerCodec
        [addRequest (Some ''i7e'') None, addRequest None None, addRequest (Some ''3:abc'') None] []))
   = [1, 2, 3]"
  by (simp add: ReadRequestHeader_def WriteResponse_def Let_def harness_defs NewServerCodec_def
      store_serverRequest_def serverRequest_reset_def)

theorem seq_counts_requests_witness:
  "fst (codec_calls (scriptedDecode noRequest) recordingEncode
     [CallReadRequestHeader, CallReadRequestHeader,
      CallWriteResponse (newResponse\<lparr>resp_Seq := 1\<rparr>) (0::nat), CallReadRequestHeader]
     ([], NewServerCodec
        [addRequest (Some ''i7e'') None, addRequest None None, addRequest (Some ''3:abc'') None] []))
   = [1, 2, 3] \<and>
   length [1, 2, 3 :: uint64] < 2 ^ 64 \<and>
   map unat [1, 2, 3 :: uint64] = [1..<Suc (length [1, 2, 3 :: uint64])] \<and>
   sorted_wrt (<) [1, 2, 3 :: uint64] \<and>
   distinct [1, 2, 3 :: uint64]"
proof -
  let ?run = "codec_calls (scriptedDecode noRequest) recordingEncode
     [CallReadRequestHeader, CallReadRequestHeader,
      CallWriteResponse (newResponse\<lparr>resp_Seq := 1\<rparr>) (0::nat), CallReadRequestHeader]
     ([], NewServerCodec
        [addRequest (Some ''i7e'') None, addRequest None None, addRequest (Some ''3:abc'') None] [])"
  have f: "fst ?run = [1, 2, 3]" by (rule seq_witness_run)
  then have run: "?run = ([1, 2, 3], snd ?run)" by (metis prod.collapse)
  have len: "length [1, 2, 3 :: uint64] < 2 ^ 64" by simp
  from f len seq_counts_requests [OF run len] show ?thesis by blast
qed

lemma codec_calls_keeps_entry:
  "codec_calls D E calls (ss, c) = (ss', c') \<Longrightarrow>
   (\<forall>r x. CallWriteResponse r x \<in> set calls \<longrightarrow> resp_Seq r \<noteq> s) \<Longrightarrow>
   s \<notin> set ss' \<Longrightarrow> sc_pending c' s = sc_pending c s"
proof (induction calls arbitrary: ss c)
  case Nil
  then show ?case by simp
next
  case (Cons a calls)
  obtain ss1 c1 where step: "codec_call D E a (ss, c) = (ss1, c1)"
    by (cases "codec_call D E a (ss, c)")
  with Cons.prems have rest: "codec_calls D E calls (ss1, c1) = (ss', c')" by simp
  from codec_calls_seqs [OF rest] Cons.prems(3) have notin: "s \<notin> set ss1" by auto
  have "sc_pending c1 s = sc_pending c s"
  proof (cases a)
    case CallReadRequestHeader
    with step codec_call_read [of D E ss c ss1 c1] notin show ?thesis
      by (auto split: option.splits)
  next
    case (CallWriteResponse r x)
    with Cons.prems(2) have "resp_Seq r \<noteq> s" by auto
    with CallWriteResponse step codec_call_write [of D E r x ss c ss1 c1] show ?thesis
      by auto
  qed
  moreover have "sc_pending c' s = sc_pending c1 s"
    using Cons.IH [OF rest] Cons.prems(2,3) by auto
  ultimately show ?case by simp
qed

lemma fresh_seq_not_reused:
  assumes "codec_calls D E calls ([], c) = (ss, c')" and "length ss < 2 ^ 64"
  shows "sc_seq c \<notin> set ss"
proof
  assume mem: "sc_seq c \<in> set ss"
  from codec_calls_seqs [OF assms(1)] obtain n where
    n: "ss = map (\<lambda>k. sc_seq c + of_nat k) [1..<Suc n]" by auto
  then have "length ss = n" by simp
  with assms(2) have n64: "n < 2 ^ 64" by simp
  from mem n obtain k where k: "1 \<le> k" "k \<le> n" "sc_seq c = sc_seq c + of_nat k"
    by (auto simp del: upt_Suc)
  then have "(of_nat k :: uint64) = 0" by simp
  moreover have "(of_nat k :: uint64) \<noteq> 0"
    by (rule of_nat_neq_0) (use k n64 in simp_all)
  ultimately show False by simp
qed

text \<open>
  C1. A request that carries an identifier \<open>b\<close> (any bytes) is read and gets the sequence
  number \<open>req_Seq q'\<close>. Whatever the caller does next (reads of fewer than \<open>2 ^ 64\<close>
  further requests, responses to other sequence numbers), \<open>WriteResponse\<close> for that
  sequence number hands the encoder, once, a response whose identifier is \<open>b\<close> itself,
  and removes the entry.
\<close>

theorem response_echoes_request_id:
  assumes dec: "Decode (sc_dec c) = ((None, w), d1)"
    and ident: "wreq_i w = Some b"
    and read: "ReadRequestHeader Decode q c = (err, q', c1)"
    and run: "codec_calls Decode Encode calls ([], c1) = (ss, c2)"
    and bound: "length ss < 2 ^ 64"
    and others: "\<forall>r x. CallWriteResponse r x \<in> set calls \<longrightarrow> resp_Seq r \<noteq> req_Seq q'"
    and same: "resp_Seq r = req_Seq q'"
  shows "err = None \<and>
         WriteResponse Encode r x c2 =
           (let (e, enc') = Encode (sc_enc c2)
                  \<lparr>sresp_Error = resp_Error r, sresp_Id = Some b, sresp_Result = x\<rparr>
            in (e, c2\<lparr>sc_pending := (sc_pending c2)(req_Seq q' := None), sc_enc := enc'\<rparr>))"
proof -
  from ReadRequestHeader_ok [where Decode = Decode and c = c, OF dec, of q] read ident
  have e: "err = None" and s: "req_Seq q' = sc_seq c1"
    and p: "sc_pending c1 (sc_seq c1) = Some (Some b)"
    by auto
  from fresh_seq_not_reused [OF run bound] have "sc_seq c1 \<notin> set ss" .
  with codec_calls_keeps_entry [OF run, of "sc_seq c1"] others s
  have "sc_pending c2 (sc_seq c1) = sc_pending c1 (sc_seq c1)" by simp
  with p s same have hit: "sc_pending c2 (resp_Seq r) = Some (Some b)" by simp
  from WriteResponse_hit [OF hit, of Encode x] e s same show ?thesis
    by (simp add: Let_def split: prod.splits)
qed

theorem response_echoes_request_id_witness:
  "sresp_Id (last (sc_enc (snd (WriteResponse recordingEncode (newResponse\<lparr>resp_Seq := 1\<rparr>) (5::nat)
     (snd (codec_calls (scriptedDecode noRequest) recordingEncode
        [CallReadRequestHeader, CallWriteResponse (newResponse\<lparr>resp_Seq := 2\<rparr>) 0]
        ([], snd (snd (ReadRequestHeader (scriptedDecode noRequest) newRequest
           (NewServerCodec
              [addRequest (Some ''l1:a1:be'') None, addRequest (Some ''i2e'') None] []))))))))))
   = Some ''l1:a1:be''"
proof -
  let ?D = "scriptedDecode noRequest"
  let ?c = "NewServerCodec [addRequest (Some ''l1:a1:be'') None, addRequest (Some ''i2e'') None]
              ([] :: nat serverResponse list)"
  let ?w = "snd (addRequest (Some ''l1:a1:be'') None)"
  let ?rd = "ReadRequestHeader ?D newRequest ?c"
  let ?calls = "[CallReadRequestHeader, CallWriteResponse (newResponse\<lparr>resp_Seq := 2\<rparr>) (0::nat)]"
  let ?run = "codec_calls ?D recordingEncode ?calls ([], snd (snd ?rd))"
  let ?r = "newResponse\<lparr>resp_Seq := 1\<rparr>"
  have dec: "?D (sc_dec ?c) = ((None, ?w), [addRequest (Some ''i2e'') None])"
    by (simp add: harness_defs NewServerCodec_def)
  have ident: "wreq_i ?w = Some ''l1:a1:be''"
    by (simp add: addRequest_def)
  have read: "?rd = (fst ?rd, fst (snd ?rd), snd (snd ?rd))"
    by simp
  have q: "req_Seq (fst (snd ?rd)) = 1"
    by (simp add: ReadRequestHeader_def Let_def harness_defs NewServerCodec_def
        store_serverRequest_def serverRequest_reset_def)
  have run: "?run = (fst ?run, snd ?run)"
    by simp
  have "fst ?run = [2]"
    by (simp add: ReadRequestHeader_def WriteResponse_def Let_def harness_defs NewServerCodec_def
        store_serverRequest_def serverRequest_reset_def)
  then have bound: "length (fst ?run) < 2 ^ 64"
    by simp
  have others: "\<forall>r x. CallWriteResponse r x \<in> set ?calls \<longrightarrow> resp_Seq r \<noteq> req_Seq (fst (snd ?rd))"
    by (simp add: q newResponse_def)
  have same: "resp_Seq ?r = req_Seq (fst (snd ?rd))"
    by (simp add: q)
  from response_echoes_request_id [OF dec ident read run bound others same, of 5]
  show ?thesis
    by (simp add: recordingEncode_def)
qed

lemma ReadRequestHeader_fail_fst:
  assumes "fst (fst (Decode (sc_dec c))) = Some err"
  shows "ReadRequestHeader Decode r c =
           (Some err, r,
            c\<lparr>sc_dec := snd (Decode (sc_dec c)),
              sc_req := store_serverRequest (snd (fst (Decode (sc_dec c))))
                          (serverRequest_reset (sc_req c))\<rparr>)"
proof -
  from assms have "Decode (sc_dec c) =
      ((Some err, snd (fst (Decode (sc_dec c)))), snd (Decode (sc_dec c)))"
    by (metis prod.collapse)
  from ReadRequestHeader_fail [where Decode = Decode and c = c, OF this] show ?thesis .
qed

lemma ServeCodec_steps:
  "(serve_step Decode dispatch ^^ k) sc = (Reading, c) \<Longrightarrow>
   ServeCodec Decode dispatch sc = ServeCodec Decode dispatch (Reading, c)"
proof (induction k arbitrary: c)
  case 0
  then show ?case by simp
next
  case (Suc k)
  obtain st c0 where prev: "(serve_step Decode dispatch ^^ k) sc = (st, c0)"
    by (cases "(serve_step Decode dispatch ^^ k) sc")
  with Suc.prems have step: "serve_step Decode dispatch (st, c0) = (Reading, c)"
    by simp
  then have st: "st = Reading"
    by (cases st) (simp_all add: serve_step_def)
  from Suc.IH prev st have "ServeCodec Decode dispatch sc = ServeCodec Decode dispatch (Reading, c0)"
    by simp
  also have "\<dots> = ServeCodec Decode dispatch (serve_step Decode dispatch (Reading, c0))"
    by (subst ServeCodec.simps) simp
  finally show ?case using step st by simp
qed

text \<open>
  C9. When the decoder fails (malformed bytes, closed connection, I/O error),
  \<open>ReadRequestHeader\<close> returns that error after the one call of the decoder, leaving the
  header, the counter and the pending table as they were. The serving loop, having served
  \<open>k\<close> requests, then closes in this step and \<open>ServeConn\<close> returns: it does not read
  again.
\<close>

theorem decode_failure_closes_loop:
  assumes served: "(serve_step Decode dispatch ^^ k) (Reading, NewServerCodec d e) = (Reading, c)"
    and failure: "fst (fst (Decode (sc_dec c))) = Some err"
  shows "fst (ReadRequestHeader Decode r c) = Some err \<and>
         fst (snd (ReadRequestHeader Decode r c)) = r \<and>
         sc_dec (snd (snd (ReadRequestHeader Decode r c))) = snd (Decode (sc_dec c)) \<and>
         sc_seq (snd (snd (ReadRequestHeader Decode r c))) = sc_seq c \<and>
         sc_pending (snd (snd (ReadRequestHeader Decode r c))) = sc_pending c \<and>
         serve_step Decode dispatch (Reading, c) =
           (Closed, snd (snd (ReadRequestHeader Decode \<lparr>req_ServiceMethod = [], req_Seq = 0\<rparr> c))) \<and>
         ServeConn Decode dispatch d e =
           Some (snd (snd (ReadRequestHeader Decode \<lparr>req_ServiceMethod = [], req_Seq = 0\<rparr> c)))"
proof -
  note fail = ReadRequestHeader_fail_fst [where Decode = Decode and c = c, OF failure]
  have step: "serve_step Decode dispatch (Reading, c) =
           (Closed, snd (snd (ReadRequestHeader Decode \<lparr>req_ServiceMethod = [], req_Seq = 0\<rparr> c)))"
    by (simp add: serve_step_def fail)
  have "ServeConn Decode dispatch d e = ServeCodec Decode dispatch (Reading, c)"
    unfolding ServeConn_def by (rule ServeCodec_steps [OF served])
  also have "\<dots> = ServeCodec Decode dispatch (serve_step Decode dispatch (Reading, c))"
    by (subst ServeCodec.simps) simp
  also have "\<dots> = Some (snd (snd (ReadRequestHeader Decode \<lparr>req_ServiceMethod = [], req_Seq = 0\<rparr> c)))"
    unfolding step by (subst ServeCodec.simps) simp
  finally have loop: "ServeConn Decode dispatch d e =
      Some (snd (snd (ReadRequestHeader Decode \<lparr>req_ServiceMethod = [], req_Seq = 0\<rparr> c)))" .
  from step loop show ?thesis by (simp add: fail)
qed

theorem decode_failure_closes_loop_witness:
  "map_option sc_enc
     (ServeConn (scriptedDecode noRequest) answerAll
        [addRequest (Some ''i7e'') None, (Some (LibError ''bencode: syntax error''), noRequest),
         addRequest (Some ''i8e'') None] []) =
   Some [\<lparr>sresp_Error = [], sresp_Id = Some ''i7e'', sresp_Result = 0\<rparr>]"
proof -
  let ?D = "scriptedDecode noRequest"
  let ?ds = "[addRequest (Some ''i7e'') None, (Some (LibError ''bencode: syntax error''), noRequest),
         addRequest (Some ''i8e'') None]"
  let ?start = "NewServerCodec ?ds ([] :: nat serverResponse list)"
  let ?c = "snd (serve_step ?D answerAll (Reading, ?start))"
  have "fst (serve_step ?D answerAll (Reading, ?start)) = Reading"
    by (simp add: serve_step_def ReadRequestHeader_def Let_def harness_defs NewServerCodec_def
        store_serverRequest_def serverRequest_reset_def)
  then have served: "(serve_step ?D answerAll ^^ Suc 0) (Reading, ?start) = (Reading, ?c)"
    by (simp add: prod_eq_iff)
  have c: "sc_dec ?c = [(Some (LibError ''bencode: syntax error''), noRequest),
         addRequest (Some ''i8e'') None]"
    "sc_enc ?c = [\<lparr>sresp_Error = [], sresp_Id = Some ''i7e'', sresp_Result = 0\<rparr>]"
    by (simp_all add: serve_step_def ReadRequestHeader_def WriteResponse_def answerAll_def Let_def
        harness_defs NewServerCodec_def store_serverRequest_def serverRequest_reset_def)
  have failure: "fst (fst (?D (sc_dec ?c))) = Some (LibError ''bencode: syntax error'')"
    by (simp add: c scriptedDecode_def)
  from decode_failure_closes_loop [where Decode = ?D and c = ?c, OF served failure, of newRequest]
  have "ServeConn ?D answerAll ?ds [] =
      Some (snd (snd (ReadRequestHeader ?D \<lparr>req_ServiceMethod = [], req_Seq = 0\<rparr> ?c)))"
    by blast
  moreover have "sc_enc (snd (snd (ReadRequestHeader ?D \<lparr>req_ServiceMethod = [], req_Seq = 0\<rparr> ?c)))
      = sc_enc ?c"
    by (simp add: ReadRequestHeader_fail_fst [where Decode = ?D and c = ?c, OF failure])
  ultimately show ?thesis by (simp add: c)
qed

section \<open>Single calls of the client codec\<close>

lemma pendingCalls_simps:
  "cc_dec (pendingCalls ds) = ds"
  "cc_pending (pendingCalls ds) = [0 \<mapsto> ''Arith.Add'', 1 \<mapsto> ''Arith.Mul'']"
  by (simp_all add: pendingCalls_def WriteRequest_def NewClientCodec_def recordingEncode_def Let_def)

lemma decoded_id:
  "cresp_Id (store_clientResponse w (clientResponse_reset r)) = wire_id w"
  by (simp add: store_clientResponse_def clientResponse_reset_def wire_id_def split: option.splits)

lemma ReadResponseHeader_fail:
  "Decode (cc_dec c) = ((Some e, w), d') \<Longrightarrow>
   ReadResponseHeader Decode r c =
     (Some e, r, c\<lparr>cc_dec := d',
                   cc_resp := store_clientResponse w (clientResponse_reset (cc_resp c))\<rparr>)"
  by (simp add: ReadResponseHeader_def Let_def)

lemma ReadResponseHeader_ok:
  "Decode (cc_dec c) = ((None, w), d') \<Longrightarrow>
   ReadResponseHeader Decode r c =
     (None,
      r\<lparr>resp_ServiceMethod := (case cc_pending c (wire_id w) of None \<Rightarrow> [] | Some m \<Rightarrow> m),
        resp_Seq := wire_id w,
        resp_Error := (case wresp_e w of None \<Rightarrow> resp_Error r
                       | Some s \<Rightarrow> if s \<noteq> [] then s else resp_Error r)\<rparr>,
      c\<lparr>cc_dec := d',
        cc_resp := \<lparr>cresp_Error = (case wresp_e w of None \<Rightarrow> [] | Some s \<Rightarrow> s),
                    cresp_Id = wire_id w,
                    cresp_Result = wresp_r w\<rparr>,
        cc_pending := (cc_pending c)(wire_id w := None)\<rparr>)"
  by (cases r; cases "wresp_i w"; cases "wresp_r w"; cases "wresp_e w")
     (simp_all add: ReadResponseHeader_def Let_def store_clientResponse_def
        clientResponse_reset_def wire_id_def)

text \<open>
  C5. A response is decoded whose identifier (0 when it has none) matches no pending call.
  \<open>ReadResponseHeader\<close> returns no error, reports the empty service method and the
  identifier as sequence number, and leaves the pending table as it was: a later response to
  any pending call \<open>k\<close> still resolves to the method of that call.
\<close>

theorem ReadResponseHeader_unknown_id:
  assumes dec: "Decode (cc_dec c) = ((None, w), d')"
    and miss: "cc_pending c (wire_id w) = None"
  shows "fst (ReadResponseHeader Decode r c) = None \<and>
         resp_ServiceMethod (fst (snd (ReadResponseHeader Decode r c))) = [] \<and>
         resp_Seq (fst (snd (ReadResponseHeader Decode r c))) = wire_id w \<and>
         cc_pending (snd (snd (ReadResponseHeader Decode r c))) = cc_pending c \<and>
         (\<forall>w2 d2 k m r2.
            Decode d' = ((None, w2), d2) \<and> wresp_i w2 = Some k \<and> cc_pending c k = Some m \<longrightarrow>
            fst (ReadResponseHeader Decode r2 (snd (snd (ReadResponseHeader Decode r c)))) = None \<and>
            resp_ServiceMethod
              (fst (snd (ReadResponseHeader Decode r2 (snd (snd (ReadResponseHeader Decode r c))))))
              = m)"
proof -
  let ?c' = "snd (snd (ReadResponseHeader Decode r c))"
  note ok = ReadResponseHeader_ok [where Decode = Decode and c = c, OF dec]
  have a: "fst (ReadResponseHeader Decode r c) = None"
    by (simp add: ok)
  have b: "resp_ServiceMethod (fst (snd (ReadResponseHeader Decode r c))) = []"
    by (simp add: ok miss)
  have s: "resp_Seq (fst (snd (ReadResponseHeader Decode r c))) = wire_id w"
    by (simp add: ok)
  have pend: "cc_pending ?c' = cc_pending c"
    using miss by (auto simp: ok)
  have d: "cc_dec ?c' = d'"
    by (simp add: ok)
  have later: "fst (ReadResponseHeader Decode r2 ?c') = None \<and>
        resp_ServiceMethod (fst (snd (ReadResponseHeader Decode r2 ?c'))) = m"
    if "Decode d' = ((None, w2), d2) \<and> wresp_i w2 = Some k \<and> cc_pending c k = Some m"
    for w2 d2 k m r2
  proof -
    from that d have "Decode (cc_dec ?c') = ((None, w2), d2)" by simp
    from ReadResponseHeader_ok [where Decode = Decode and c = ?c', OF this, of r2] that pend
    show ?thesis by (simp add: wire_id_def)
  qed
  from a b s pend later show ?thesis by blast
qed

theorem ReadResponseHeader_unknown_id_witness:
  "(let D = scriptedDecode noResponse;
        c = pendingCalls
              [(None, \<lparr>wresp_e = Some [], wresp_i = Some 99, wresp_r = Some ''de''\<rparr>),
               (None, \<lparr>wresp_e = Some [], wresp_i = Some 1, wresp_r = Some ''d1:Ci6ee''\<rparr>)];
        c1 = snd (snd (ReadResponseHeader D newResponse c))
    in resp_ServiceMethod (fst (snd (ReadResponseHeader D newResponse c))) = [] \<and>
       resp_ServiceMethod (fst (snd (ReadResponseHeader D newResponse c1))) = ''Arith.Mul'')"
proof -
  let ?D = "scriptedDecode noResponse"
  let ?w = "\<lparr>wresp_e = Some [], wresp_i = Some 99, wresp_r = Some ''de''\<rparr>"
  let ?w2 = "\<lparr>wresp_e = Some [], wresp_i = Some 1, wresp_r = Some ''d1:Ci6ee''\<rparr>"
  let ?c = "pendingCalls [(None, ?w), (None, ?w2)]"
  have dec: "?D (cc_dec ?c) = ((None, ?w), [(None, ?w2)])"
    by (simp add: pendingCalls_simps scriptedDecode_def)
  have miss: "cc_pending ?c (wire_id ?w) = None"
    by (simp add: pendingCalls_simps wire_id_def)
  have next_dec: "?D [(None, ?w2)] = ((None, ?w2), []) \<and> wresp_i ?w2 = Some 1 \<and>
      cc_pending ?c 1 = Some ''Arith.Mul''"
    by (simp add: pendingCalls_simps scriptedDecode_def)
  from ReadResponseHeader_unknown_id [where Decode = ?D and c = ?c, OF dec miss, of newResponse] next_dec
  show ?thesis unfolding Let_def by blast
qed

text \<open>
  C10. The work space is reset before the decoder runs: after a successful
  \<open>ReadResponseHeader\<close> it holds what the dictionary stored over zero values, whatever the
  response before left there. So a response without \<^verbatim>\<open>e\<close> leaves the error of the header
  as the caller passed it, and a response without \<^verbatim>\<open>i\<close> is a response to call 0: the
  sequence number is 0, the method is that of the pending entry 0 (empty when there is none),
  that entry is deleted, and no error is returned.
\<close>

theorem ReadResponseHeader_omitted_fields:
  assumes dec: "Decode (cc_dec c) = ((None, w), d')"
  shows "fst (ReadResponseHeader Decode r c) = None \<and>
         cc_resp (snd (snd (ReadResponseHeader Decode r c))) =
           store_clientResponse w \<lparr>cresp_Error = [], cresp_Id = 0, cresp_Result = None\<rparr> \<and>
         (wresp_e w = None \<longrightarrow>
            resp_Error (fst (snd (ReadResponseHeader Decode r c))) = resp_Error r) \<and>
         (wresp_i w = None \<longrightarrow>
            resp_Seq (fst (snd (ReadResponseHeader Decode r c))) = 0 \<and>
            resp_ServiceMethod (fst (snd (ReadResponseHeader Decode r c))) =
              (case cc_pending c 0 of None \<Rightarrow> [] | Some m \<Rightarrow> m) \<and>
            cc_pending (snd (snd (ReadResponseHeader Decode r c))) = (cc_pending c)(0 := None))"
  by (simp add: ReadResponseHeader_ok [where Decode = Decode and c = c, OF dec] wire_id_def
      store_clientResponse_def split: option.splits)

theorem ReadResponseHeader_omitted_fields_witness:
  "(let D = scriptedDecode noResponse;
        c0 = pendingCalls
               [(None, \<lparr>wresp_e = Some ''divide by zero'', wresp_i = Some 1, wresp_r = None\<rparr>),
                (None, \<lparr>wresp_e = None, wresp_i = None, wresp_r = Some ''d1:Ci15ee''\<rparr>)];
        c = snd (snd (ReadResponseHeader D newResponse c0));
        r = fst (snd (ReadResponseHeader D newResponse c))
    in resp_Error r = [] \<and> resp_Seq r = 0 \<and> resp_ServiceMethod r = ''Arith.Add'')"
proof -
  let ?D = "scriptedDecode noResponse"
  let ?w1 = "\<lparr>wresp_e = Some ''divide by zero'', wresp_i = Some 1, wresp_r = None\<rparr>"
  let ?w = "\<lparr>wresp_e = None, wresp_i = None, wresp_r = Some ''d1:Ci15ee''\<rparr>"
  let ?start = "pendingCalls [(None, ?w1), (None, ?w)]"
  let ?c = "snd (snd (ReadResponseHeader ?D newResponse ?start))"
  have dec0: "?D (cc_dec ?start) = ((None, ?w1), [(None, ?w)])"
    by (simp add: pendingCalls_simps scriptedDecode_def)
  note first = ReadResponseHeader_ok [where Decode = ?D and c = ?start, OF dec0, of newResponse]
  have dec: "?D (cc_dec ?c) = ((None, ?w), [])"
    by (simp add: first scriptedDecode_def)
  have pend: "cc_pending ?c 0 = Some ''Arith.Add''"
    by (simp add: first pendingCalls_simps wire_id_def)
  have e: "wresp_e ?w = None" and i: "wresp_i ?w = None"
    by simp_all
  from ReadResponseHeader_omitted_fields [where Decode = ?D and c = ?c, OF dec, of newResponse] e i pend
  show ?thesis unfolding Let_def by (simp add: newResponse_def)
qed

section \<open>Missing fields\<close>

text \<open>
  C6. After a request without \<^verbatim>\<open>p\<close> has been read, \<open>ReadRequestBody\<close> with a target
  returns \<open>errMissingParams\<close>, an error of this package that no error of the library or of
  the connection equals, and leaves the target as it was; with a nil target it returns no
  error. \<open>ReadRequestBody\<close> has no access to the connection: the codec stays as it is.
\<close>

theorem ReadRequestBody_missing_params:
  assumes dec: "Decode (sc_dec c) = ((None, w), d')"
    and nop: "wreq_p w = None"
  shows "fst (ReadRequestHeader Decode r c) = None \<and>
         ReadRequestBody Unmarshal (Some t) (snd (snd (ReadRequestHeader Decode r c))) =
           (Some errMissingParams, Some t) \<and>
         ReadRequestBody Unmarshal None (snd (snd (ReadRequestHeader Decode r c))) = (None, None) \<and>
         errMissingParams \<noteq> LibError s \<and>
         errMissingParams \<noteq> ErrorsNew ''invalid sequence number in response''"
  by (simp add: ReadRequestHeader_ok [where Decode = Decode and c = c, OF dec] nop
      ReadRequestBody_def errMissingParams_def)

theorem ReadRequestBody_missing_params_witness:
  "(let c = snd (snd (ReadRequestHeader (scriptedDecode noRequest) newRequest
                (NewServerCodec [addRequest (Some ''i7e'') None] ([] :: nat list))))
    in ReadRequestBody (\<lambda>b t. (None, t)) (Some (0::nat)) c = (Some errMissingParams, Some 0) \<and>
       ReadRequestBody (\<lambda>b t. (None, t)) (None :: nat option) c = (None, None))"
proof -
  let ?D = "scriptedDecode noRequest"
  let ?start = "NewServerCodec [addRequest (Some ''i7e'') None] ([] :: nat list)"
  let ?w = "snd (addRequest (Some ''i7e'') None)"
  have dec: "?D (sc_dec ?start) = ((None, ?w), [])"
    by (simp add: harness_defs NewServerCodec_def)
  have nop: "wreq_p ?w = None"
    by (simp add: addRequest_def)
  from ReadRequestBody_missing_params [where Decode = ?D and c = ?start and t = "0::nat", OF dec nop,
      of newRequest "\<lambda>b t. (None, t)"]
  show ?thesis unfolding Let_def by simp
qed

lemma ReadRequestHeader_absent_id:
  assumes "Decode (sc_dec c) = ((None, w), d')" and "wreq_i w = None"
    and "sc_pending c (sc_seq c + 1) = None" and "resp_Seq r' = sc_seq c + 1"
  shows "WriteResponse Encode r' x (snd (snd (ReadRequestHeader Decode r c))) =
           (Some (ErrorsNew ''invalid sequence number in response''),
            snd (snd (ReadRequestHeader Decode r c)))"
  by (rule WriteResponse_miss)
     (simp add: ReadRequestHeader_ok [where Decode = Decode and c = c, OF assms(1)] assms)

lemma codec_calls_no_nil:
  "codec_calls D E calls (ss, c) = (ss', c') \<Longrightarrow> \<forall>k. sc_pending c k \<noteq> Some None \<Longrightarrow>
   sc_pending c' k \<noteq> Some None"
proof (induction calls arbitrary: ss c)
  case Nil
  then show ?case by simp
next
  case (Cons a calls)
  obtain ss1 c1 where step: "codec_call D E a (ss, c) = (ss1, c1)"
    by (cases "codec_call D E a (ss, c)")
  with Cons.prems have rest: "codec_calls D E calls (ss1, c1) = (ss', c')" by simp
  have "\<forall>k. sc_pending c1 k \<noteq> Some None"
  proof (cases a)
    case CallReadRequestHeader
    with step codec_call_read [of D E ss c ss1 c1] Cons.prems(2) show ?thesis
      by (auto split: option.splits if_splits)
  next
    case (CallWriteResponse r x)
    with step codec_call_write [of D E r x ss c ss1 c1] Cons.prems(2) show ?thesis
      by auto
  qed
  with Cons.IH [OF rest] show ?case by blast
qed

lemma sentinel_never_written:
  assumes "codec_calls D E calls ([], NewServerCodec d e) = (ss, c)"
  shows "sc_pending c k \<noteq> Some None"
  using codec_calls_no_nil [OF assms] by (simp add: NewServerCodec_def)

text \<open>
  C2. The code at a request without identifier, on a new codec: the request is read and gets the
  sequence number 1, but no pending entry is made for it, so that \<open>WriteResponse\<close> for
  sequence number 1 returns "invalid sequence number in response" and writes nothing. The
  sentinel \<open>zero\<close> is not sent (by \<open>sentinel_never_written\<close>, no caller can bring a
  nil pointer into the pending table).
\<close>

theorem absent_id_response_refused:
  "(let c = NewServerCodec [addRequest None (Some ''d1:Ai1e1:Bi2ee'')] ([] :: nat serverResponse list);
        (err, q, c1) = ReadRequestHeader (scriptedDecode noRequest) newRequest c
    in err = None \<and> req_Seq q = 1 \<and> sc_pending c1 = Map.empty \<and>
       WriteResponse recordingEncode (newResponse\<lparr>resp_Seq := req_Seq q\<rparr>) 3 c1 =
         (Some (ErrorsNew ''invalid sequence number in response''), c1) \<and>
       sc_enc c1 = [])"
  by (simp add: ReadRequestHeader_def WriteResponse_def Let_def harness_defs NewServerCodec_def
      store_serverRequest_def serverRequest_reset_def)

text \<open>
  C3. The code at a response without \<^verbatim>\<open>r\<close>, which answers the pending call 0 with an empty
  error: the header is read without error, and \<open>ReadResponseBody\<close> with a target
  dereferences the nil \<open>Result\<close>: it panics instead of returning an error. With a nil
  target it returns no error.
\<close>

theorem absent_result_panics:
  "(let c = pendingCalls [(None, \<lparr>wresp_e = Some [], wresp_i = Some 0, wresp_r = None\<rparr>)];
        (err, r, c1) = ReadResponseHeader (scriptedDecode noResponse) newResponse c
    in err = None \<and> resp_Error r = [] \<and> resp_ServiceMethod r = ''Arith.Add'' \<and>
       ReadResponseBody (\<lambda>b t. (None, t)) (Some (0::nat)) c1 = Inl NilDereference \<and>
       ReadResponseBody (\<lambda>b t. (None, t)) (None :: nat option) c1 = Inr (None, None))"
  by (simp add: ReadResponseHeader_def ReadResponseBody_def Let_def harness_defs pendingCalls_def
      WriteRequest_def NewClientCodec_def store_clientResponse_def clientResponse_reset_def)

lemma ReadResponseBody_nil_Result:
  "cresp_Result (cc_resp c) = None \<Longrightarrow> ReadResponseBody Unmarshal (Some t) c = Inl NilDereference"
  by (simp add: ReadResponseBody_def)

end
